theory Spec2Isabelle
  imports Main
begin

section \<open>The gRPC health-check tool (grpc\_healthcheck.py)\<close>

text \<open>
  The tool is a thin client: \<open>main\<close> parses the command line, builds the target
  address and calls \<open>check_health\<close>, which opens a channel, sends one
  \<open>HealthCheckRequest\<close>, classifies the answer and closes the channel. Everything the
  program does besides returning a value is made explicit here:
  \<^item> an exception in flight is a value of \<open>py_exc\<close>, and a function that may raise returns
    \<open>py_exc + 'a\<close>;
  \<^item> printing, argparse's own output and the calls into the gRPC runtime are recorded, in
    order, in a list of events that every function returns next to its result;
  \<^item> the gRPC runtime, the remote server and Python's \<open>int\<close>, \<open>float\<close> conversions are
    not code of the tool: they are the fields of a \<open>runtime\<close> record that the functions
    take as a parameter. A Python float is a value of the type variable \<open>'f\<close>.
  Strings are byte lists: text outside ASCII is written in UTF-8, and a word of the
  command line may hold bytes that are not UTF-8 at all.
\<close>

subsection \<open>Enumerations of the libraries\<close>

text \<open>\<open>grpc.StatusCode\<close>. The code \<open>UNKNOWN\<close> of gRPC is named \<open>UNKNOWN_CODE\<close> here, since
  the source uses the name \<open>UNKNOWN\<close> for the serving status.\<close>

datatype status_code =
    OK | CANCELLED | UNKNOWN_CODE | INVALID_ARGUMENT | DEADLINE_EXCEEDED | NOT_FOUND
  | ALREADY_EXISTS | PERMISSION_DENIED | RESOURCE_EXHAUSTED | FAILED_PRECONDITION
  | ABORTED | OUT_OF_RANGE | UNIMPLEMENTED | INTERNAL | UNAVAILABLE | DATA_LOSS
  | UNAUTHENTICATED

fun status_code_name :: "status_code \<Rightarrow> string" where
  "status_code_name OK = ''OK''"
| "status_code_name CANCELLED = ''CANCELLED''"
| "status_code_name UNKNOWN_CODE = ''UNKNOWN''"
| "status_code_name INVALID_ARGUMENT = ''INVALID_ARGUMENT''"
| "status_code_name DEADLINE_EXCEEDED = ''DEADLINE_EXCEEDED''"
| "status_code_name NOT_FOUND = ''NOT_FOUND''"
| "status_code_name ALREADY_EXISTS = ''ALREADY_EXISTS''"
| "status_code_name PERMISSION_DENIED = ''PERMISSION_DENIED''"
| "status_code_name RESOURCE_EXHAUSTED = ''RESOURCE_EXHAUSTED''"
| "status_code_name FAILED_PRECONDITION = ''FAILED_PRECONDITION''"
| "status_code_name ABORTED = ''ABORTED''"
| "status_code_name OUT_OF_RANGE = ''OUT_OF_RANGE''"
| "status_code_name UNIMPLEMENTED = ''UNIMPLEMENTED''"
| "status_code_name INTERNAL = ''INTERNAL''"
| "status_code_name UNAVAILABLE = ''UNAVAILABLE''"
| "status_code_name DATA_LOSS = ''DATA_LOSS''"
| "status_code_name UNAUTHENTICATED = ''UNAUTHENTICATED''"

text \<open>\<open>HealthCheckResponse.ServingStatus\<close>: the field \<open>response.status\<close> is the integer
  read from the wire (an open proto3 enum), and four integers have a name.\<close>

definition UNKNOWN :: int where "UNKNOWN = 0"
definition SERVING :: int where "SERVING = 1"
definition NOT_SERVING :: int where "NOT_SERVING = 2"
definition SERVICE_UNKNOWN :: int where "SERVICE_UNKNOWN = 3"

text \<open>\<open>ServingStatus.Name(status)\<close>: \<open>None\<close> stands for the \<open>ValueError\<close> that the
  protobuf library raises on an integer without a name.\<close>

definition ServingStatus_Name :: "int \<Rightarrow> string option" where
  "ServingStatus_Name status =
     (if status = UNKNOWN then Some ''UNKNOWN''
      else if status = SERVING then Some ''SERVING''
      else if status = NOT_SERVING then Some ''NOT_SERVING''
      else if status = SERVICE_UNKNOWN then Some ''SERVICE_UNKNOWN''
      else None)"

subsection \<open>Formatting\<close>

text \<open>An integer in an f-string is printed in decimal.\<close>

fun str_nat :: "nat \<Rightarrow> string" where
  "str_nat n =
     (if n < 10 then [''0123456789'' ! n]
      else str_nat (n div 10) @ [''0123456789'' ! (n mod 10)])"

declare str_nat.simps [simp del]

definition str_int :: "int \<Rightarrow> string" where
  "str_int i = (if i < 0 then ''-'' @ str_nat (nat (- i)) else str_nat (nat i))"

text \<open>A value that may be \<open>None\<close> is printed as the text \<open>None\<close> in an f-string.\<close>

definition str_optional :: "string option \<Rightarrow> string" where
  "str_optional v = (case v of None \<Rightarrow> ''None'' | Some s \<Rightarrow> s)"

text \<open>The symbols of the messages, in UTF-8: U+1F50D, U+2705, U+274C, U+26A0 U+FE0F, U+2753.\<close>

definition magnifier :: string where
  "magnifier = [CHR 0xF0, CHR 0x9F, CHR 0x94, CHR 0x8D]"

definition check_mark :: string where
  "check_mark = [CHR 0xE2, CHR 0x9C, CHR 0x85]"

definition cross_mark :: string where
  "cross_mark = [CHR 0xE2, CHR 0x9D, CHR 0x8C]"

definition warning_sign :: string where
  "warning_sign = [CHR 0xE2, CHR 0x9A, CHR 0xA0, CHR 0xEF, CHR 0xB8, CHR 0x8F]"

definition question_mark :: string where
  "question_mark = [CHR 0xE2, CHR 0x9D, CHR 0x93]"

subsection \<open>Exceptions, events and the runtime\<close>

text \<open>The exceptions that travel between \<open>check_health\<close>, \<open>main\<close> and the interpreter.
  \<open>OtherException\<close> is any instance of \<open>Exception\<close> that is neither a
  \<open>HealthCheckError\<close> nor an \<open>RpcError\<close>, with its \<open>str()\<close>. \<open>SystemExit\<close> derives from
  \<open>BaseException\<close> only, so no handler of \<open>main\<close> catches it.\<close>

datatype py_exc = HealthCheckError string | OtherException string | SystemExit int

text \<open>The status of the process once an exception has left \<open>main\<close>: the argument of
  \<open>sys.exit\<close>, and 1 for any other exception, which the interpreter reports itself.\<close>

fun exit_status :: "py_exc \<Rightarrow> int" where
  "exit_status (SystemExit n) = n"
| "exit_status (HealthCheckError m) = 1"
| "exit_status (OtherException m) = 1"

text \<open>What argparse reports through \<open>parser.error\<close>: a conflict inside the mutually
  exclusive group, a value that \<open>type=\<close> rejects, the required group left empty, leftover
  arguments, and the message that \<open>main\<close> passes itself.\<close>

datatype arg_error =
    NotAllowedWith string string
  | InvalidValue string string
  | OneRequired string string
  | Unrecognized "string list"
  | ParserError string

datatype 'f event =
    Stdout string
  | Stderr string
  | StderrTraceback
  | UsageError arg_error
  | HelpText
  | ChannelCreate string bool
  | CheckCall string 'f
  | ChannelClose

text \<open>The outcome of lines 68--75: an exception while the stub and the request are built
  (lines 68--71, before anything is sent), or the outcome of the one call
  \<open>stub.Check(request, timeout=timeout)\<close>: a response with its status, a
  \<open>grpc.RpcError\<close> with its \<open>code()\<close> and \<open>details()\<close>, or another exception.\<close>

datatype rpc_outcome =
    Returned int
  | RaisedRpc status_code "string option"
  | RaisedOther string
  | RaisedBefore string

record 'f runtime =
  py_int :: "string \<Rightarrow> int option"
  py_float :: "string \<Rightarrow> 'f option"
  str_float :: "'f \<Rightarrow> string"
  float_5_0 :: 'f
  encode_error_text :: "string \<Rightarrow> string"
  request_error_text :: "string \<Rightarrow> string"
  create_channel :: "string \<Rightarrow> bool \<Rightarrow> string option"
  check_outcome :: "string \<Rightarrow> bool \<Rightarrow> string \<Rightarrow> 'f \<Rightarrow> rpc_outcome"

text \<open>
  \<^item> \<open>py_int\<close>, \<open>py_float\<close>: \<open>int(s)\<close> and \<open>float(s)\<close>, \<open>None\<close> for \<open>ValueError\<close>;
  \<^item> \<open>str_float\<close>: a float inside an f-string; \<open>float_5_0\<close>: the literal \<open>5.0\<close>;
  \<^item> \<open>encode_error_text s\<close>: the \<open>str()\<close> of the \<open>UnicodeEncodeError\<close> that encoding \<open>s\<close>
    as UTF-8 raises; \<open>request_error_text s\<close>: the \<open>str()\<close> of the exception that
    \<open>HealthCheckRequest(service=s)\<close> raises for a service it cannot encode;
  \<^item> \<open>create_channel target use_tls\<close>: the channel constructor on a target it can
    encode, \<open>None\<close> when the channel object is returned and \<open>Some msg\<close> when it raises an
    exception with that text;
  \<^item> \<open>check_outcome target use_tls service timeout\<close>: what lines 68--75 give on a channel
    to that target, for a service that can be encoded.
\<close>

subsection \<open>Text that cannot be encoded\<close>

text \<open>
  A word of the command line is decoded from UTF-8 with \<open>surrogateescape\<close>: bytes that
  are not valid UTF-8 become lone surrogates of the \<open>str\<close>. Such a \<open>str\<close> cannot be
  encoded again: \<open>print\<close> on stdout, the channel constructor (which encodes the target)
  and the request constructor (which encodes the service) raise on it. Here a string is
  the byte list, and \<open>valid_utf8\<close> says that it decodes without surrogates. The scanner
  keeps the number of continuation bytes still expected and the range of the next one.
\<close>

fun utf8_scan :: "nat \<Rightarrow> nat \<Rightarrow> nat \<Rightarrow> string \<Rightarrow> bool" where
  "utf8_scan k lo hi [] = (k = 0)"
| "utf8_scan k lo hi (c # cs) =
     (if k = 0 then
        (if (of_char c :: nat) < 0x80 then utf8_scan 0 0x80 0xBF cs
         else if 0xC2 \<le> (of_char c :: nat) \<and> (of_char c :: nat) \<le> 0xDF
           then utf8_scan 1 0x80 0xBF cs
         else if (of_char c :: nat) = 0xE0 then utf8_scan 2 0xA0 0xBF cs
         else if (of_char c :: nat) = 0xED then utf8_scan 2 0x80 0x9F cs
         else if 0xE1 \<le> (of_char c :: nat) \<and> (of_char c :: nat) \<le> 0xEF
           then utf8_scan 2 0x80 0xBF cs
         else if (of_char c :: nat) = 0xF0 then utf8_scan 3 0x90 0xBF cs
         else if 0xF1 \<le> (of_char c :: nat) \<and> (of_char c :: nat) \<le> 0xF3
           then utf8_scan 3 0x80 0xBF cs
         else if (of_char c :: nat) = 0xF4 then utf8_scan 3 0x80 0x8F cs
         else False)
      else if lo \<le> (of_char c :: nat) \<and> (of_char c :: nat) \<le> hi
        then utf8_scan (k - 1) 0x80 0xBF cs
      else False)"

definition valid_utf8 :: "string \<Rightarrow> bool" where
  "valid_utf8 s = utf8_scan 0 0x80 0xBF s"

text \<open>Lines 60--64: \<open>grpc.insecure_channel\<close> and \<open>grpc.secure_channel\<close> encode the target
  before they build the channel.\<close>

definition open_channel :: "'f runtime \<Rightarrow> string \<Rightarrow> bool \<Rightarrow> string option" where
  "open_channel rt target use_tls =
     (if valid_utf8 target then create_channel rt target use_tls
      else Some (encode_error_text rt target))"

text \<open>Lines 68--75: the request constructor refuses a service that it cannot encode, so
  no call is made for it.\<close>

definition health_check ::
  "'f runtime \<Rightarrow> string \<Rightarrow> bool \<Rightarrow> string \<Rightarrow> 'f \<Rightarrow> rpc_outcome" where
  "health_check rt target use_tls service timeout =
     (if valid_utf8 service then check_outcome rt target use_tls service timeout
      else RaisedBefore (request_error_text rt service))"

subsection \<open>check\_health\<close>

text \<open>Lines 49--57, when every line can be printed.\<close>

definition verbose_banner ::
  "'f runtime \<Rightarrow> string \<Rightarrow> string \<Rightarrow> 'f \<Rightarrow> bool \<Rightarrow> 'f event list" where
  "verbose_banner rt target service timeout use_tls =
     [Stdout (magnifier @ '' Checking health of gRPC server at '' @ target),
      (if service \<noteq> [] then Stdout (''   Service: '' @ service)
       else Stdout ''   Service: <overall server health>''),
      Stdout (''   Timeout: '' @ str_float rt timeout @ ''s''),
      Stdout (''   TLS: '' @ (if use_tls then ''enabled'' else ''disabled'')),
      Stdout '''']"

text \<open>Lines 49--57 as they run: the \<open>print\<close> of line 50 raises when the target cannot be
  encoded, and the \<open>print\<close> of line 52 when the service cannot. Nothing of the failing
  line is written. The other texts of the tool are literals, a float, the names of the
  two enumerations and the details that gRPC decoded itself, which can all be encoded;
  stderr replaces what it cannot encode.\<close>

definition print_banner ::
  "'f runtime \<Rightarrow> string \<Rightarrow> string \<Rightarrow> 'f \<Rightarrow> bool \<Rightarrow> py_exc option \<times> 'f event list" where
  "print_banner rt target service timeout use_tls =
     (if \<not> valid_utf8 target then
        (Some (OtherException
                 (encode_error_text rt
                    (magnifier @ '' Checking health of gRPC server at '' @ target))),
         [])
      else if service \<noteq> [] \<and> \<not> valid_utf8 service then
        (Some (OtherException (encode_error_text rt (''   Service: '' @ service))),
         [Stdout (magnifier @ '' Checking health of gRPC server at '' @ target)])
      else (None, verbose_banner rt target service timeout use_tls))"

text \<open>Lines 84--96: the message of the \<open>HealthCheckError\<close> raised for an \<open>RpcError\<close>.\<close>

definition rpc_error_message ::
  "'f runtime \<Rightarrow> string \<Rightarrow> string \<Rightarrow> 'f \<Rightarrow> status_code \<Rightarrow> string option \<Rightarrow> string" where
  "rpc_error_message rt target service timeout status_code details =
     (if status_code = UNIMPLEMENTED then
        ''Health check not implemented on the server. '' @
        ''Make sure the server implements grpc.health.v1.Health service.''
      else if status_code = DEADLINE_EXCEEDED then
        ''Health check timed out after '' @ str_float rt timeout @ ''s''
      else if status_code = UNAVAILABLE then
        ''Cannot connect to '' @ target
      else if status_code = NOT_FOUND then
        ''Service '' @ [CHR 0x27] @ service @ [CHR 0x27] @ '' not found''
      else
        ''Health check failed: '' @ status_code_name status_code @ '' - '' @
        str_optional details)"

text \<open>Lines 102--110.\<close>

definition status_line :: "int \<Rightarrow> string \<Rightarrow> 'f event" where
  "status_line status status_name =
     (if status = SERVING then Stdout (check_mark @ '' Service is '' @ status_name)
      else if status = NOT_SERVING then Stdout (cross_mark @ '' Service is '' @ status_name)
      else if status = UNKNOWN then
        Stdout (warning_sign @ ''  Service status is '' @ status_name)
      else Stdout (question_mark @ '' Service status: '' @ status_name))"

text \<open>\<open>check_health\<close>, lines 26--115. The channel is created before the \<open>try\<close>; whatever
  leaves the \<open>try\<close> passes the \<open>finally\<close>, which closes the channel. \<open>CheckCall\<close> is
  recorded only when line 75 is reached.\<close>

definition check_health ::
  "'f runtime \<Rightarrow> string \<Rightarrow> string \<Rightarrow> 'f \<Rightarrow> bool \<Rightarrow> bool \<Rightarrow> (py_exc + bool) \<times> 'f event list" where
  "check_health rt target service timeout use_tls verbose =
     (case (if verbose then print_banner rt target service timeout use_tls else (None, [])) of
        (Some e, banner) \<Rightarrow> (Inl e, banner)
      | (None, banner) \<Rightarrow>
          (case open_channel rt target use_tls of
             Some msg \<Rightarrow> (Inl (OtherException msg), banner)
           | None \<Rightarrow>
               (let opened = banner @ [ChannelCreate target use_tls];
                    called = opened @ [CheckCall service timeout]
                in case health_check rt target use_tls service timeout of
                     RaisedBefore msg \<Rightarrow> (Inl (OtherException msg), opened @ [ChannelClose])
                   | RaisedRpc status_code details \<Rightarrow>
                       (Inl (HealthCheckError
                               (rpc_error_message rt target service timeout status_code details)),
                        called @
                        (if verbose then
                           [Stdout (cross_mark @ '' gRPC Error: '' @ status_code_name status_code),
                            Stdout (''   Details: '' @ str_optional details)]
                         else []) @
                        [ChannelClose])
                   | RaisedOther msg \<Rightarrow> (Inl (OtherException msg), called @ [ChannelClose])
                   | Returned status \<Rightarrow>
                       (case ServingStatus_Name status of
                          None \<Rightarrow>
                            (Inl (OtherException
                                    (''Enum ServingStatus has no name defined for value '' @
                                     str_int status)),
                             called @ [ChannelClose])
                        | Some status_name \<Rightarrow>
                            (Inr (status = SERVING),
                             called @
                             (if verbose then [status_line status status_name] else []) @
                             [ChannelClose])))))"

subsection \<open>The command line\<close>

text \<open>
  The command line as argparse's scanner reads it, from left to right: each occurrence
  of an option with its argument text, and \<open>Extra\<close> for a word that belongs to no option.
  \<open>OptHelp\<close> is the \<open>-h\<close>/\<open>--help\<close> option that every \<open>ArgumentParser\<close> has.
\<close>

datatype cli_item =
    OptTarget string
  | OptHost string
  | OptPort string
  | OptService string
  | OptTimeout string
  | OptTls
  | OptVerbose
  | OptHelp
  | Extra string

text \<open>The namespace that \<open>parse_args\<close> returns (lines 143--183).\<close>

record 'f namespace =
  target :: "string option"
  host :: "string option"
  port :: "int option"
  service :: string
  timeout :: 'f
  tls :: bool
  verbose :: bool

text \<open>The defaults: \<open>None\<close> where none is given, \<open>""\<close> for the service, \<open>5.0\<close> for the
  timeout, \<open>False\<close> for the two \<open>store_true\<close> flags.\<close>

definition default_namespace :: "'f runtime \<Rightarrow> 'f namespace" where
  "default_namespace rt =
     \<lparr>target = None, host = None, port = None, service = '''',
      timeout = float_5_0 rt, tls = False, verbose = False\<rparr>"

text \<open>The parser's state while it consumes the command line: the namespace, which
  members of the mutually exclusive group \<open>--target\<close>, \<open>--host\<close> it has seen, and the
  words it could not place.\<close>

record 'f parser_state =
  args :: "'f namespace"
  seen_target :: bool
  seen_host :: bool
  extras :: "string list"

datatype parse_exit = HelpExit | UsageExit arg_error

text \<open>One occurrence: the value is converted (\<open>type=int\<close>, \<open>type=float\<close>), a member of the
  group is refused when the other member was seen, then the value is stored. \<open>--help\<close>
  prints the help text and leaves at once.\<close>

fun take_action ::
  "'f runtime \<Rightarrow> cli_item \<Rightarrow> 'f parser_state \<Rightarrow> parse_exit + 'f parser_state" where
  "take_action rt (OptTarget v) st =
     (if seen_host st then Inl (UsageExit (NotAllowedWith ''--target'' ''--host''))
      else Inr (st\<lparr>args := (args st)\<lparr>target := Some v\<rparr>, seen_target := True\<rparr>))"
| "take_action rt (OptHost v) st =
     (if seen_target st then Inl (UsageExit (NotAllowedWith ''--host'' ''--target''))
      else Inr (st\<lparr>args := (args st)\<lparr>host := Some v\<rparr>, seen_host := True\<rparr>))"
| "take_action rt (OptPort v) st =
     (case py_int rt v of
        None \<Rightarrow> Inl (UsageExit (InvalidValue ''--port'' v))
      | Some p \<Rightarrow> Inr (st\<lparr>args := (args st)\<lparr>port := Some p\<rparr>\<rparr>))"
| "take_action rt (OptService v) st = Inr (st\<lparr>args := (args st)\<lparr>service := v\<rparr>\<rparr>)"
| "take_action rt (OptTimeout v) st =
     (case py_float rt v of
        None \<Rightarrow> Inl (UsageExit (InvalidValue ''--timeout'' v))
      | Some t \<Rightarrow> Inr (st\<lparr>args := (args st)\<lparr>timeout := t\<rparr>\<rparr>))"
| "take_action rt OptTls st = Inr (st\<lparr>args := (args st)\<lparr>tls := True\<rparr>\<rparr>)"
| "take_action rt OptVerbose st = Inr (st\<lparr>args := (args st)\<lparr>verbose := True\<rparr>\<rparr>)"
| "take_action rt OptHelp st = Inl HelpExit"
| "take_action rt (Extra w) st = Inr (st\<lparr>extras := extras st @ [w]\<rparr>)"

fun consume :: "'f runtime \<Rightarrow> cli_item list \<Rightarrow> 'f parser_state \<Rightarrow> parse_exit + 'f parser_state" where
  "consume rt [] st = Inr st"
| "consume rt (x # xs) st =
     (case take_action rt x st of Inl e \<Rightarrow> Inl e | Inr st' \<Rightarrow> consume rt xs st')"

text \<open>\<open>parser.parse_args()\<close>, line 185: after the last word, the required group must have
  a member and no word may be left over.\<close>

definition parse_args :: "'f runtime \<Rightarrow> cli_item list \<Rightarrow> parse_exit + 'f namespace" where
  "parse_args rt argv =
     (case consume rt argv
             \<lparr>args = default_namespace rt, seen_target = False, seen_host = False,
              extras = []\<rparr> of
        Inl e \<Rightarrow> Inl e
      | Inr st \<Rightarrow>
          if \<not> seen_target st \<and> \<not> seen_host st then
            Inl (UsageExit (OneRequired ''--target'' ''--host''))
          else if extras st \<noteq> [] then Inl (UsageExit (Unrecognized (extras st)))
          else Inr (args st))"

text \<open>Lines 188--193. \<open>if args.target\<close> is false for \<open>None\<close> and for the empty string.\<close>

definition build_target :: "'f namespace \<Rightarrow> arg_error + string" where
  "build_target a =
     (if target a \<noteq> None \<and> target a \<noteq> Some [] then Inr (the (target a))
      else if port a = None then Inl (ParserError ''--port is required when using --host'')
      else Inr (str_optional (host a) @ '':'' @ str_int (the (port a))))"

subsection \<open>main\<close>

text \<open>Lines 196--222: the call of \<open>check_health\<close> and the handlers around it. The result
  is the exception that leaves the \<open>try\<close> statement, with everything that happened.\<close>

definition run_check :: "'f runtime \<Rightarrow> string \<Rightarrow> 'f namespace \<Rightarrow> py_exc \<times> 'f event list" where
  "run_check rt tgt a =
     (case check_health rt tgt (service a) (timeout a) (tls a) (verbose a) of
        (Inr is_healthy, evs) \<Rightarrow>
          if is_healthy then
            (SystemExit 0,
             evs @ (if \<not> verbose a then [Stdout (check_mark @ '' Service is healthy'')] else []))
          else
            (SystemExit 1,
             evs @
             (if \<not> verbose a then [Stdout (cross_mark @ '' Service is not healthy'')] else []))
      | (Inl (HealthCheckError e), evs) \<Rightarrow>
          (SystemExit 1, evs @ [Stderr (cross_mark @ '' Health check failed: '' @ e)])
      | (Inl (OtherException e), evs) \<Rightarrow>
          (SystemExit 1,
           evs @ [Stderr (cross_mark @ '' Unexpected error: '' @ e)] @
           (if verbose a then [StderrTraceback] else []))
      | (Inl (SystemExit n), evs) \<Rightarrow> (SystemExit n, evs))"

text \<open>\<open>main\<close>: \<open>parser.error\<close> prints the usage and the message on stderr and leaves with
  status 2; \<open>--help\<close> prints the help text and leaves with status 0.\<close>

definition main :: "'f runtime \<Rightarrow> cli_item list \<Rightarrow> py_exc \<times> 'f event list" where
  "main rt argv =
     (case parse_args rt argv of
        Inl HelpExit \<Rightarrow> (SystemExit 0, [HelpText])
      | Inl (UsageExit e) \<Rightarrow> (SystemExit 2, [UsageError e])
      | Inr a \<Rightarrow>
          (case build_target a of
             Inl e \<Rightarrow> (SystemExit 2, [UsageError e])
           | Inr tgt \<Rightarrow> run_check rt tgt a))"

subsection \<open>Observations on a run\<close>

text \<open>The events that reach the gRPC runtime, the number of channels left open after a
  sequence of events, and the number of calls made.\<close>

fun is_network :: "'f event \<Rightarrow> bool" where
  "is_network (ChannelCreate t s) = True"
| "is_network (CheckCall s t) = True"
| "is_network ChannelClose = True"
| "is_network e = False"


fun check_calls :: "'f event list \<Rightarrow> nat" where
  "check_calls [] = 0"
| "check_calls (CheckCall s t # evs) = Suc (check_calls evs)"
| "check_calls (e # evs) = check_calls evs"

text \<open>The values given to \<open>--service\<close> on a command line, in order.\<close>

fun service_options :: "cli_item list \<Rightarrow> string list" where
  "service_options [] = []"
| "service_options (OptService v # xs) = v # service_options xs"
| "service_options (x # xs) = service_options xs"

subsection \<open>A runtime to run the model on\<close>

text \<open>A float is kept as the text it was read from, every channel to a target that can
  be encoded is built, and the server answers by service name alone.\<close>

fun digits_value :: "string \<Rightarrow> nat \<Rightarrow> nat option" where
  "digits_value [] acc = Some acc"
| "digits_value (c # cs) acc =
     (if c \<in> set ''0123456789''
      then digits_value cs (10 * acc + (of_char c - 48)) else None)"

definition mock_runtime :: "(string \<Rightarrow> rpc_outcome) \<Rightarrow> string runtime" where
  "mock_runtime server =
     \<lparr>py_int = (\<lambda>s. if s = [] then None else map_option int (digits_value s 0)),
      py_float = Some,
      str_float = (\<lambda>t. t),
      float_5_0 = ''5.0'',
      encode_error_text = (\<lambda>s. ''surrogates not allowed''),
      request_error_text = (\<lambda>s. ''service cannot be encoded in UTF-8''),
      create_channel = (\<lambda>tgt use_tls. None),
      check_outcome = (\<lambda>tgt use_tls svc tmo. server svc)\<rparr>"

text \<open>The server of the spec's last testable property, and the one of example\_server.py
  (lines 27--31); a service that was never set is answered with \<open>NOT_FOUND\<close>.\<close>

definition spec_server :: "string \<Rightarrow> rpc_outcome" where
  "spec_server svc =
     (if svc = '''' then Returned SERVING
      else if svc = ''X'' then Returned NOT_SERVING
      else RaisedRpc NOT_FOUND (Some ''unknown service''))"

definition example_server :: "string \<Rightarrow> rpc_outcome" where
  "example_server svc =
     (if svc = '''' then Returned SERVING
      else if svc = ''example.Service'' then Returned SERVING
      else if svc = ''example.AnotherService'' then Returned NOT_SERVING
      else RaisedRpc NOT_FOUND (Some ''unknown service''))"

section \<open>Properties\<close>

subsection \<open>Text that can be encoded\<close>

lemma valid_utf8_texts:
  "valid_utf8 ''''" "valid_utf8 ''X''" "valid_utf8 ''localhost:50051''"
  "valid_utf8 ''None:50051''" "valid_utf8 ''example.AnotherService''"
  "\<not> valid_utf8 [CHR 0xFF]"
  by (simp_all add: valid_utf8_def)

lemma open_channel_valid: "open_channel rt t u = None \<Longrightarrow> valid_utf8 t"
  by (simp add: open_channel_def split: if_splits)

lemma health_check_valid:
  "health_check rt t u s tm = Returned st \<Longrightarrow> valid_utf8 s"
  "health_check rt t u s tm = RaisedRpc c d \<Longrightarrow> valid_utf8 s"
  "health_check rt t u s tm = RaisedOther m \<Longrightarrow> valid_utf8 s"
  by (simp_all add: health_check_def split: if_splits)

lemma health_check_invalid:
  "\<not> valid_utf8 s \<Longrightarrow> health_check rt t u s tm = RaisedBefore (request_error_text rt s)"
  by (simp add: health_check_def)

lemma print_banner_valid:
  "valid_utf8 t \<Longrightarrow> valid_utf8 s \<Longrightarrow>
   print_banner rt t s tm u = (None, verbose_banner rt t s tm u)"
  by (simp add: print_banner_def)

lemma print_banner_invalid:
  "valid_utf8 t \<Longrightarrow> \<not> valid_utf8 s \<Longrightarrow>
   print_banner rt t s tm u =
     (Some (OtherException (encode_error_text rt (''   Service: '' @ s))),
      [Stdout (magnifier @ '' Checking health of gRPC server at '' @ t)])"
  using valid_utf8_texts(1) by (auto simp: print_banner_def)

subsection \<open>What check\_health returns and records\<close>

lemma check_health_returned:
  assumes "open_channel rt t u = None" "health_check rt t u s tm = Returned st"
    "ServingStatus_Name st = Some nm"
  shows "check_health rt t s tm u v =
    (Inr (st = SERVING),
     (if v then verbose_banner rt t s tm u else []) @ [ChannelCreate t u, CheckCall s tm] @
     (if v then [status_line st nm] else []) @ [ChannelClose])"
  using assms
  by (simp add: check_health_def
      print_banner_valid[OF open_channel_valid[OF assms(1)] health_check_valid(1)[OF assms(2)]])

lemma check_health_rpc_raised:
  assumes "open_channel rt t u = None" "health_check rt t u s tm = RaisedRpc c d"
  shows "check_health rt t s tm u v =
    (Inl (HealthCheckError (rpc_error_message rt t s tm c d)),
     (if v then verbose_banner rt t s tm u else []) @ [ChannelCreate t u, CheckCall s tm] @
     (if v then [Stdout (cross_mark @ '' gRPC Error: '' @ status_code_name c),
                 Stdout (''   Details: '' @ str_optional d)] else []) @ [ChannelClose])"
  using assms
  by (simp add: check_health_def
      print_banner_valid[OF open_channel_valid[OF assms(1)] health_check_valid(2)[OF assms(2)]])

lemma check_health_no_exit: "fst (check_health rt t s tm u v) \<noteq> Inl (SystemExit n)"
  by (simp add: check_health_def print_banner_def Let_def
      split: option.splits rpc_outcome.splits)

lemma banner_not_network: "filter is_network (verbose_banner rt t s tm u) = []"
  by (simp add: verbose_banner_def)

lemma status_line_not_network: "\<not> is_network (status_line st nm)"
  by (simp add: status_line_def)

lemma check_health_quiet_network:
  "filter is_network (snd (check_health rt t s tm u False)) =
     (case open_channel rt t u of
        Some m \<Rightarrow> []
      | None \<Rightarrow>
          (case health_check rt t u s tm of
             RaisedBefore m \<Rightarrow> [ChannelCreate t u, ChannelClose]
           | Returned st \<Rightarrow> [ChannelCreate t u, CheckCall s tm, ChannelClose]
           | RaisedRpc c d \<Rightarrow> [ChannelCreate t u, CheckCall s tm, ChannelClose]
           | RaisedOther m \<Rightarrow> [ChannelCreate t u, CheckCall s tm, ChannelClose]))"
  by (simp add: check_health_def Let_def split: option.splits rpc_outcome.splits)

lemma check_health_verbose_valid:
  assumes "valid_utf8 t" "valid_utf8 s"
  shows "fst (check_health rt t s tm u True) = fst (check_health rt t s tm u False)"
    and "filter is_network (snd (check_health rt t s tm u True)) =
         filter is_network (snd (check_health rt t s tm u False))"
  by (simp_all add: check_health_def print_banner_valid[OF assms] Let_def banner_not_network
      status_line_not_network split: option.splits rpc_outcome.splits)

lemma check_health_verbose_target:
  assumes "\<not> valid_utf8 t"
  shows "\<exists>m. check_health rt t s tm u True = (Inl (OtherException m), [])"
    and "\<exists>m. check_health rt t s tm u False = (Inl (OtherException m), [])"
  using assms by (simp_all add: check_health_def print_banner_def open_channel_def)

lemma check_health_verbose_service:
  assumes "valid_utf8 t" "\<not> valid_utf8 s"
  shows "\<exists>m evs. check_health rt t s tm u True = (Inl (OtherException m), evs)
           \<and> filter is_network evs = []"
    and "\<exists>m evs. check_health rt t s tm u False = (Inl (OtherException m), evs)"
  using assms
  by (simp_all add: check_health_def print_banner_invalid health_check_invalid Let_def
      split: option.splits)

lemma check_health_network:
  "filter is_network (snd (check_health rt t s tm u v)) =
     (if open_channel rt t u \<noteq> None then []
      else if v \<and> \<not> valid_utf8 s then []
      else case health_check rt t u s tm of
             RaisedBefore m \<Rightarrow> [ChannelCreate t u, ChannelClose]
           | Returned st \<Rightarrow> [ChannelCreate t u, CheckCall s tm, ChannelClose]
           | RaisedRpc c d \<Rightarrow> [ChannelCreate t u, CheckCall s tm, ChannelClose]
           | RaisedOther m \<Rightarrow> [ChannelCreate t u, CheckCall s tm, ChannelClose])"
proof (cases v)
  case False
  then show ?thesis
    by (simp add: check_health_quiet_network split: option.splits)
next
  case True
  show ?thesis
  proof (cases "valid_utf8 t")
    case False
    from check_health_verbose_target(1)[OF False, of rt s tm u] False True show ?thesis
      by (auto simp: open_channel_def)
  next
    case vt: True
    show ?thesis
    proof (cases "valid_utf8 s")
      case False
      from check_health_verbose_service(1)[OF vt False, of rt tm u] True False show ?thesis
        by auto
    next
      case vs: True
      from check_health_verbose_valid(2)[OF vt vs, of rt tm u] True vs show ?thesis
        by (simp add: check_health_quiet_network split: option.splits)
    qed
  qed
qed


lemma check_calls_filter: "check_calls (filter is_network evs) = check_calls evs"
  by (induction evs rule: check_calls.induct) simp_all


subsection \<open>What main does with the result\<close>

lemma main_run_check:
  "parse_args rt argv = Inr a \<Longrightarrow> build_target a = Inr tgt \<Longrightarrow> main rt argv = run_check rt tgt a"
  by (simp add: main_def)


lemma run_check_network:
  "filter is_network (snd (run_check rt tgt a)) =
   filter is_network (snd (check_health rt tgt (service a) (timeout a) (tls a) (verbose a)))"
  by (cases "check_health rt tgt (service a) (timeout a) (tls a) (verbose a)")
     (auto simp: run_check_def split: sum.splits py_exc.splits)


subsection \<open>The channel and the verbose flag\<close>


text \<open>The four shapes on the mock runtime: a response, an exception of the request
  constructor, and the banner of the verbose mode failing on the service and on the
  target.\<close>

lemma mock_fields:
  "valid_utf8 t \<Longrightarrow> open_channel (mock_runtime srv) t u = None"
  "valid_utf8 sv \<Longrightarrow> health_check (mock_runtime srv) t u sv tm = srv sv"
  "float_5_0 (mock_runtime srv) = ''5.0''"
  "str_float (mock_runtime srv) x = x"
  "py_float (mock_runtime srv) x = Some x"
  "encode_error_text (mock_runtime srv) x = ''surrogates not allowed''"
  "request_error_text (mock_runtime srv) x = ''service cannot be encoded in UTF-8''"
  by (simp_all add: mock_runtime_def open_channel_def health_check_def)

lemmas status_defs = UNKNOWN_def SERVING_def NOT_SERVING_def SERVICE_UNKNOWN_def





subsection \<open>Outcomes of the health check\<close>

text \<open>The mock runtime on concrete command lines, for the instances below.\<close>

lemma mock_parse_target:
  "parse_args (mock_runtime srv) [OptTarget ''localhost:50051''] =
     Inr ((default_namespace (mock_runtime srv))\<lparr>target := Some ''localhost:50051''\<rparr>)"
  by (simp add: parse_args_def)

lemma mock_parse_target_service:
  "parse_args (mock_runtime srv) [OptTarget ''localhost:50051'', OptService sv] =
     Inr ((default_namespace (mock_runtime srv))\<lparr>target := Some ''localhost:50051'', service := sv\<rparr>)"
  by (simp add: parse_args_def)

lemma mock_parse_target_verbose:
  "parse_args (mock_runtime srv) [OptTarget ''localhost:50051'', OptVerbose] =
     Inr ((default_namespace (mock_runtime srv))\<lparr>target := Some ''localhost:50051'', verbose := True\<rparr>)"
  by (simp add: parse_args_def)

lemma build_target_given:
  "build_target (a\<lparr>target := Some ''localhost:50051''\<rparr>) = Inr ''localhost:50051''"
  by (simp add: build_target_def)

text \<open>
  C1. In every run in which the health-check call returns a response whose status is
  \<open>SERVING\<close>, \<open>check_health\<close> returns \<open>True\<close>, a success line is printed on stdout
  (by \<open>main\<close>, or by \<open>check_health\<close> itself in verbose mode) and the process leaves with
  status 0. A run reaches the call when the command line parses, a target can be built
  and the channel can be created.
\<close>

theorem serving_exits_0:
  assumes "parse_args rt argv = Inr a" "build_target a = Inr tgt"
    "open_channel rt tgt (tls a) = None"
    "health_check rt tgt (tls a) (service a) (timeout a) = Returned SERVING"
  shows "fst (check_health rt tgt (service a) (timeout a) (tls a) (verbose a)) = Inr True
       \<and> fst (main rt argv) = SystemExit 0
       \<and> exit_status (fst (main rt argv)) = 0
       \<and> Stdout (check_mark @
            (if verbose a then '' Service is SERVING'' else '' Service is healthy''))
           \<in> set (snd (main rt argv))"
proof -
  have nm: "ServingStatus_Name SERVING = Some ''SERVING''"
    by (simp add: ServingStatus_Name_def status_defs)
  note ch = check_health_returned[OF assms(3,4) nm, of "verbose a"]
  have m: "main rt argv = run_check rt tgt a"
    by (rule main_run_check[OF assms(1,2)])
  show ?thesis
    by (simp add: m run_check_def ch status_line_def)
qed

theorem serving_exits_0_witness:
  "parse_args (mock_runtime spec_server) [OptTarget ''localhost:50051''] =
     Inr ((default_namespace (mock_runtime spec_server))\<lparr>target := Some ''localhost:50051''\<rparr>)
   \<and> health_check (mock_runtime spec_server) ''localhost:50051'' False '''' ''5.0'' = Returned SERVING
   \<and> main (mock_runtime spec_server) [OptTarget ''localhost:50051''] =
       (SystemExit 0,
        [ChannelCreate ''localhost:50051'' False, CheckCall '''' ''5.0'', ChannelClose,
         Stdout (check_mark @ '' Service is healthy'')])"
proof -
  let ?rt = "mock_runtime spec_server"
  let ?a = "(default_namespace ?rt)\<lparr>target := Some ''localhost:50051''\<rparr>"
  have h1: "parse_args ?rt [OptTarget ''localhost:50051''] = Inr ?a"
    by (rule mock_parse_target)
  have h2: "build_target ?a = Inr ''localhost:50051''"
    by (rule build_target_given)
  have h3: "open_channel ?rt ''localhost:50051'' (tls ?a) = None"
    by (simp add: mock_fields valid_utf8_texts)
  have h4: "health_check ?rt ''localhost:50051'' (tls ?a) (service ?a) (timeout ?a) = Returned SERVING"
    by (simp add: mock_fields valid_utf8_texts spec_server_def default_namespace_def)
  have h5: "health_check ?rt ''localhost:50051'' False '''' ''5.0'' = Returned SERVING"
    by (simp add: mock_fields valid_utf8_texts spec_server_def)
  have ev: "snd (main ?rt [OptTarget ''localhost:50051'']) =
        [ChannelCreate ''localhost:50051'' False, CheckCall '''' ''5.0'', ChannelClose,
         Stdout (check_mark @ '' Service is healthy'')]"
    by (simp add: main_run_check[OF h1 h2] run_check_def check_health_def mock_fields valid_utf8_texts
        spec_server_def default_namespace_def ServingStatus_Name_def status_defs)
  from serving_exits_0[OF h1 h2 h3 h4] have "fst (main ?rt [OptTarget ''localhost:50051'']) = SystemExit 0"
    by simp
  with ev h1 h5 show ?thesis by (simp add: prod_eq_iff)
qed


lemma not_serving_names:
  "st = NOT_SERVING \<or> st = UNKNOWN \<or> st = SERVICE_UNKNOWN \<Longrightarrow>
   ServingStatus_Name st =
     Some (if st = NOT_SERVING then ''NOT_SERVING''
           else if st = UNKNOWN then ''UNKNOWN'' else ''SERVICE_UNKNOWN'')
   \<and> st \<noteq> SERVING"
  by (auto simp: ServingStatus_Name_def status_defs)

lemma check_mark_not_printed:
  "check_mark @ l \<noteq> cross_mark @ l'" "check_mark @ l \<noteq> warning_sign @ l'"
  "check_mark @ l \<noteq> question_mark @ l'" "check_mark @ l \<noteq> magnifier @ l'"
  "check_mark @ l \<noteq> CHR '' '' # l'" "check_mark @ l \<noteq> []"
  by (simp_all add: check_mark_def cross_mark_def warning_sign_def question_mark_def magnifier_def)

text \<open>
  C2. In every run in which the health-check call returns a response whose status is
  \<open>NOT_SERVING\<close>, \<open>UNKNOWN\<close> or \<open>SERVICE_UNKNOWN\<close>, \<open>check_health\<close> returns \<open>False\<close>,
  a failure line is printed and the process leaves with status 1. The failure line is
  the cross-marked line of \<open>main\<close>; in verbose mode it is the status line of
  \<open>check_health\<close> (cross mark, warning sign or question mark with the status name). No
  line with the check mark is printed.
\<close>

theorem not_serving_exits_1:
  assumes "parse_args rt argv = Inr a" "build_target a = Inr tgt"
    "open_channel rt tgt (tls a) = None"
    "health_check rt tgt (tls a) (service a) (timeout a) = Returned st"
    "st = NOT_SERVING \<or> st = UNKNOWN \<or> st = SERVICE_UNKNOWN"
  shows "fst (check_health rt tgt (service a) (timeout a) (tls a) (verbose a)) = Inr False
       \<and> fst (main rt argv) = SystemExit 1
       \<and> exit_status (fst (main rt argv)) = 1
       \<and> Stdout
            (if \<not> verbose a then cross_mark @ '' Service is not healthy''
             else if st = NOT_SERVING then cross_mark @ '' Service is NOT_SERVING''
             else if st = UNKNOWN then warning_sign @ ''  Service status is UNKNOWN''
             else question_mark @ '' Service status: SERVICE_UNKNOWN'')
           \<in> set (snd (main rt argv))
       \<and> Stdout (check_mark @ '' Service is healthy'') \<notin> set (snd (main rt argv))
       \<and> Stdout (check_mark @ '' Service is SERVING'') \<notin> set (snd (main rt argv))"
proof -
  note nm = not_serving_names[OF assms(5)]
  note ch = check_health_returned[OF assms(3,4) conjunct1[OF nm], of "verbose a"]
  have m: "main rt argv = run_check rt tgt a"
    by (rule main_run_check[OF assms(1,2)])
  from assms(5) have ne: "st \<noteq> SERVING" using nm by simp
  show ?thesis
    using ne assms(5)
    by (auto simp: m run_check_def ch status_line_def verbose_banner_def check_mark_not_printed
        status_defs)
qed

theorem not_serving_exits_1_witness:
  "health_check (mock_runtime spec_server) ''localhost:50051'' False ''X'' ''5.0'' = Returned NOT_SERVING
   \<and> fst (main (mock_runtime spec_server) [OptTarget ''localhost:50051'', OptService ''X'']) = SystemExit 1
   \<and> Stdout (cross_mark @ '' Service is not healthy'')
        \<in> set (snd (main (mock_runtime spec_server) [OptTarget ''localhost:50051'', OptService ''X'']))
   \<and> fst (main (mock_runtime (\<lambda>sv. Returned UNKNOWN)) [OptTarget ''localhost:50051'', OptVerbose]) = SystemExit 1
   \<and> Stdout (warning_sign @ ''  Service status is UNKNOWN'')
        \<in> set (snd (main (mock_runtime (\<lambda>sv. Returned UNKNOWN)) [OptTarget ''localhost:50051'', OptVerbose]))
   \<and> fst (main (mock_runtime (\<lambda>sv. Returned SERVICE_UNKNOWN)) [OptTarget ''localhost:50051'']) = SystemExit 1"
proof -
  have h: "health_check (mock_runtime spec_server) ''localhost:50051'' False ''X'' ''5.0'' = Returned NOT_SERVING"
    by (simp add: mock_fields valid_utf8_texts spec_server_def)
  have a: "fst (main (mock_runtime spec_server) [OptTarget ''localhost:50051'', OptService ''X'']) = SystemExit 1
      \<and> Stdout (cross_mark @ '' Service is not healthy'')
        \<in> set (snd (main (mock_runtime spec_server) [OptTarget ''localhost:50051'', OptService ''X'']))"
    using not_serving_exits_1[OF mock_parse_target_service[of spec_server "''X''"],
        where tgt = "''localhost:50051''" and st = NOT_SERVING]
    by (simp add: build_target_def mock_fields valid_utf8_texts spec_server_def default_namespace_def)
  have b: "fst (main (mock_runtime (\<lambda>sv. Returned UNKNOWN)) [OptTarget ''localhost:50051'', OptVerbose]) = SystemExit 1
   \<and> Stdout (warning_sign @ ''  Service status is UNKNOWN'')
        \<in> set (snd (main (mock_runtime (\<lambda>sv. Returned UNKNOWN)) [OptTarget ''localhost:50051'', OptVerbose]))"
    using not_serving_exits_1[OF mock_parse_target_verbose[of "\<lambda>sv. Returned UNKNOWN"],
        where tgt = "''localhost:50051''" and st = UNKNOWN]
    by (simp add: build_target_def mock_fields valid_utf8_texts default_namespace_def status_defs)
  have c: "fst (main (mock_runtime (\<lambda>sv. Returned SERVICE_UNKNOWN)) [OptTarget ''localhost:50051'']) = SystemExit 1"
    using not_serving_exits_1[OF mock_parse_target[of "\<lambda>sv. Returned SERVICE_UNKNOWN"],
        where tgt = "''localhost:50051''" and st = SERVICE_UNKNOWN]
    by (simp add: build_target_def mock_fields valid_utf8_texts default_namespace_def)
  from h a b c show ?thesis by simp
qed

text \<open>
  C3. For every \<open>RpcError\<close> raised by the \<open>Check\<close> call, \<open>check_health\<close> raises a
  \<open>HealthCheckError\<close> whose message depends on the gRPC status code: \<open>UNIMPLEMENTED\<close>
  gives the "not implemented" text, \<open>DEADLINE_EXCEEDED\<close> the "timed out" text with the
  timeout, \<open>UNAVAILABLE\<close> "Cannot connect" with the target, \<open>NOT_FOUND\<close> the "not
  found" text with the service, and any other code the generic text with the name of the
  code and the details. \<open>main\<close> prints the message on stderr and leaves with status 1.
\<close>

theorem rpc_error_classified:
  assumes "parse_args rt argv = Inr a" "build_target a = Inr tgt"
    "open_channel rt tgt (tls a) = None"
    "health_check rt tgt (tls a) (service a) (timeout a) = RaisedRpc c d"
  shows "fst (check_health rt tgt (service a) (timeout a) (tls a) (verbose a)) =
           Inl (HealthCheckError
             (if c = UNIMPLEMENTED then
                ''Health check not implemented on the server. Make sure the server implements grpc.health.v1.Health service.''
              else if c = DEADLINE_EXCEEDED then
                ''Health check timed out after '' @ str_float rt (timeout a) @ ''s''
              else if c = UNAVAILABLE then ''Cannot connect to '' @ tgt
              else if c = NOT_FOUND then
                ''Service '' @ [CHR 0x27] @ service a @ [CHR 0x27] @ '' not found''
              else ''Health check failed: '' @ status_code_name c @ '' - '' @ str_optional d))
       \<and> fst (main rt argv) = SystemExit 1
       \<and> exit_status (fst (main rt argv)) = 1
       \<and> Stderr (cross_mark @ '' Health check failed: '' @
                  rpc_error_message rt tgt (service a) (timeout a) c d)
           \<in> set (snd (main rt argv))"
proof -
  note ch = check_health_rpc_raised[OF assms(3,4), of "verbose a"]
  have m: "main rt argv = run_check rt tgt a"
    by (rule main_run_check[OF assms(1,2)])
  have msg: "fst (check_health rt tgt (service a) (timeout a) (tls a) (verbose a)) =
      Inl (HealthCheckError (rpc_error_message rt tgt (service a) (timeout a) c d))"
    by (simp add: ch)
  have rest: "fst (main rt argv) = SystemExit 1 \<and> exit_status (fst (main rt argv)) = 1
       \<and> Stderr (cross_mark @ '' Health check failed: '' @
                  rpc_error_message rt tgt (service a) (timeout a) c d)
           \<in> set (snd (main rt argv))"
    by (simp add: m run_check_def ch)
  from msg rest show ?thesis
    by (simp add: rpc_error_message_def)
qed

theorem rpc_error_classified_witness:
  "health_check (mock_runtime (\<lambda>sv. RaisedRpc UNIMPLEMENTED (Some ''Method not found!'')))
      ''localhost:50051'' False '''' ''5.0'' = RaisedRpc UNIMPLEMENTED (Some ''Method not found!'')
   \<and> fst (check_health (mock_runtime (\<lambda>sv. RaisedRpc UNIMPLEMENTED (Some ''Method not found!'')))
            ''localhost:50051'' '''' ''5.0'' False False) =
       Inl (HealthCheckError
             ''Health check not implemented on the server. Make sure the server implements grpc.health.v1.Health service.'')
   \<and> fst (main (mock_runtime (\<lambda>sv. RaisedRpc UNIMPLEMENTED (Some ''Method not found!'')))
            [OptTarget ''localhost:50051'']) = SystemExit 1"
  using rpc_error_classified[
      OF mock_parse_target[of "\<lambda>sv. RaisedRpc UNIMPLEMENTED (Some ''Method not found!'')"],
      where tgt = "''localhost:50051''" and c = UNIMPLEMENTED and d = "Some ''Method not found!''"]
  by (simp add: build_target_def mock_fields valid_utf8_texts default_namespace_def)

text \<open>
  C7 as stated (on success the probe returns the serving-status value of the response)
  does not hold: \<open>check_health\<close> returns a boolean, and two responses with different
  statuses, \<open>NOT_SERVING\<close> and \<open>UNKNOWN\<close>, give the same returned value.
\<close>

theorem check_health_returns_bool_counterexample:
  "NOT_SERVING \<noteq> UNKNOWN
   \<and> fst (check_health (mock_runtime (\<lambda>sv. Returned NOT_SERVING)) ''localhost:50051'' ''''
            ''5.0'' False False) = Inr False
   \<and> fst (check_health (mock_runtime (\<lambda>sv. Returned UNKNOWN)) ''localhost:50051'' ''''
            ''5.0'' False False) = Inr False"
  by (simp add: check_health_def mock_fields valid_utf8_texts ServingStatus_Name_def status_defs)

text \<open>
  C7, amended. On success, with a response whose status is one of the four values of the
  enumeration, \<open>check_health\<close> returns whether that status is \<open>SERVING\<close>.
\<close>

theorem check_health_returns_is_serving:
  assumes "open_channel rt t u = None" "health_check rt t u s tm = Returned st"
    "st \<in> {UNKNOWN, SERVING, NOT_SERVING, SERVICE_UNKNOWN}"
  shows "fst (check_health rt t s tm u v) = Inr (st = SERVING)"
proof -
  from assms(3) obtain nm where "ServingStatus_Name st = Some nm"
    by (auto simp: ServingStatus_Name_def status_defs)
  from check_health_returned[OF assms(1,2) this] show ?thesis by simp
qed

theorem check_health_returns_is_serving_witness:
  "health_check (mock_runtime example_server) ''localhost:50051'' False ''example.AnotherService'' ''5.0''
     = Returned NOT_SERVING
   \<and> NOT_SERVING \<in> {UNKNOWN, SERVING, NOT_SERVING, SERVICE_UNKNOWN}
   \<and> fst (check_health (mock_runtime example_server) ''localhost:50051''
            ''example.AnotherService'' ''5.0'' False False) = Inr False"
  using check_health_returns_is_serving[of "mock_runtime example_server" "''localhost:50051''"
      False "''example.AnotherService''" "''5.0''" NOT_SERVING False]
  by (simp add: mock_fields valid_utf8_texts example_server_def status_defs)

text \<open>
  C10. \<open>main\<close> never propagates an exception of the health check: whatever
  \<open>check_health\<close> raises once the arguments are parsed, a \<open>HealthCheckError\<close> or any
  other exception, \<open>main\<close> prints it on stderr and leaves through \<open>sys.exit(1)\<close>.
\<close>

theorem main_catches_every_exception:
  assumes "parse_args rt argv = Inr a" "build_target a = Inr tgt"
    "fst (check_health rt tgt (service a) (timeout a) (tls a) (verbose a)) = Inl x"
  shows "fst (main rt argv) = SystemExit 1
       \<and> exit_status (fst (main rt argv)) = 1
       \<and> (\<exists>m. (x = HealthCheckError m \<and>
                 Stderr (cross_mark @ '' Health check failed: '' @ m) \<in> set (snd (main rt argv)))
              \<or> (x = OtherException m \<and>
                 Stderr (cross_mark @ '' Unexpected error: '' @ m) \<in> set (snd (main rt argv))))"
proof -
  have m: "main rt argv = run_check rt tgt a"
    by (rule main_run_check[OF assms(1,2)])
  obtain r evs where ch: "check_health rt tgt (service a) (timeout a) (tls a) (verbose a) = (r, evs)"
    by (cases "check_health rt tgt (service a) (timeout a) (tls a) (verbose a)")
  with assms(3) have r: "r = Inl x" by simp
  from check_health_no_exit[of rt tgt "service a" "timeout a" "tls a" "verbose a"] ch r
  have nx: "\<And>n. x \<noteq> SystemExit n" by auto
  show ?thesis
  proof (cases x)
    case (HealthCheckError e)
    then show ?thesis by (simp add: m run_check_def ch r)
  next
    case (OtherException e)
    then show ?thesis by (simp add: m run_check_def ch r)
  next
    case (SystemExit n)
    with nx[of n] show ?thesis by blast
  qed
qed

theorem main_catches_every_exception_witness:
  "fst (check_health (mock_runtime (\<lambda>sv. Returned 7)) ''localhost:50051'' '''' ''5.0'' False False)
     = Inl (OtherException ''Enum ServingStatus has no name defined for value 7'')
   \<and> main (mock_runtime (\<lambda>sv. Returned 7)) [OptTarget ''localhost:50051''] =
       (SystemExit 1,
        [ChannelCreate ''localhost:50051'' False, CheckCall '''' ''5.0'', ChannelClose,
         Stderr (cross_mark @ '' Unexpected error: Enum ServingStatus has no name defined for value 7'')])"
proof -
  let ?rt = "mock_runtime (\<lambda>sv. Returned 7)"
  have ch: "check_health ?rt ''localhost:50051'' '''' ''5.0'' False False =
     (Inl (OtherException ''Enum ServingStatus has no name defined for value 7''),
      [ChannelCreate ''localhost:50051'' False, CheckCall '''' ''5.0'', ChannelClose])"
    by (simp add: check_health_def mock_fields valid_utf8_texts ServingStatus_Name_def status_defs str_int_def
        str_nat.simps)
  have ev: "snd (main ?rt [OptTarget ''localhost:50051'']) =
        [ChannelCreate ''localhost:50051'' False, CheckCall '''' ''5.0'', ChannelClose,
         Stderr (cross_mark @ '' Unexpected error: Enum ServingStatus has no name defined for value 7'')]"
    by (simp add: main_run_check[OF mock_parse_target build_target_given] run_check_def
        default_namespace_def mock_fields valid_utf8_texts ch)
  from main_catches_every_exception[OF mock_parse_target[of "\<lambda>sv. Returned 7"] build_target_given,
      where x = "OtherException ''Enum ServingStatus has no name defined for value 7''"]
  have "fst (main ?rt [OptTarget ''localhost:50051'']) = SystemExit 1"
    by (simp add: default_namespace_def mock_fields valid_utf8_texts ch)
  with ev ch show ?thesis by (simp add: prod_eq_iff)
qed

subsection \<open>The mutually exclusive group and the service name\<close>











lemma main_parse_exit:
  "parse_args rt argv = Inl e \<Longrightarrow>
   main rt argv = (case e of HelpExit \<Rightarrow> (SystemExit 0, [HelpText])
                   | UsageExit err \<Rightarrow> (SystemExit 2, [UsageError err]))"
  by (simp add: main_def split: parse_exit.splits)




lemma consume_service:
  assumes "consume rt xs st = Inr st'"
  shows "service (args st') =
           (if service_options xs = [] then service (args st) else last (service_options xs))"
  using assms
proof (induction xs arbitrary: st)
  case Nil
  then show ?case by simp
next
  case (Cons x xs)
  then obtain st1 where s1: "take_action rt x st = Inr st1" and s2: "consume rt xs st1 = Inr st'"
    by (auto split: sum.splits)
  from s1 have "service (args st1) = (case x of OptService v \<Rightarrow> v | _ \<Rightarrow> service (args st))"
    by (cases x) (auto split: if_splits option.splits)
  with Cons.IH[OF s2] show ?case by (cases x) auto
qed

lemma parse_args_service:
  assumes "parse_args rt argv = Inr a"
  shows "service a = (if service_options argv = [] then '''' else last (service_options argv))"
proof (cases "consume rt argv
    \<lparr>args = default_namespace rt, seen_target = False, seen_host = False, extras = []\<rparr>")
  case (Inl e)
  with assms show ?thesis by (simp add: parse_args_def)
next
  case (Inr st)
  with assms have "a = args st" by (auto simp: parse_args_def split: if_splits)
  with consume_service[OF Inr] show ?thesis by (simp add: default_namespace_def)
qed

text \<open>
  C8. Without \<open>--service\<close> the request carries the empty service name. Against a server
  that answers \<open>SERVING\<close> for the service \<open>""\<close> and \<open>NOT_SERVING\<close> for the service
  \<open>"X"\<close>, an invocation without \<open>--service\<close> leaves with status 0 and an invocation
  whose (last) \<open>--service\<close> is \<open>X\<close> leaves with status 1. The two command lines are
  any that parse and give a target to which the channel can be created.
\<close>

theorem omitted_service_is_whole_server:
  assumes "\<forall>tgt u tm. health_check rt tgt u '''' tm = Returned SERVING"
    and "\<forall>tgt u tm. health_check rt tgt u ''X'' tm = Returned NOT_SERVING"
    and "open_channel rt tgt (tls a) = None \<and> open_channel rt tgt' (tls a') = None"
    and "parse_args rt argv = Inr a" "build_target a = Inr tgt" "service_options argv = []"
    and "parse_args rt argv' = Inr a'" "build_target a' = Inr tgt'"
    and "service_options argv' \<noteq> []" "last (service_options argv') = ''X''"
  shows "service a = ''''
       \<and> CheckCall '''' (timeout a) \<in> set (snd (main rt argv))
       \<and> fst (main rt argv) = SystemExit 0
       \<and> exit_status (fst (main rt argv)) = 0
       \<and> service a' = ''X''
       \<and> CheckCall ''X'' (timeout a') \<in> set (snd (main rt argv'))
       \<and> fst (main rt argv') = SystemExit 1
       \<and> exit_status (fst (main rt argv')) = 1"
proof -
  have s: "service a = ''''"
    using parse_args_service[OF assms(4)] assms(6) by simp
  have s': "service a' = ''X''"
    using parse_args_service[OF assms(7)] assms(9,10) by simp
  have nm: "ServingStatus_Name SERVING = Some ''SERVING''"
    by (simp add: ServingStatus_Name_def status_defs)
  have nm': "ServingStatus_Name NOT_SERVING = Some ''NOT_SERVING''"
    by (simp add: ServingStatus_Name_def status_defs)
  have ne: "NOT_SERVING \<noteq> SERVING"
    by (simp add: status_defs)
  have h: "health_check rt tgt (tls a) (service a) (timeout a) = Returned SERVING"
    using assms(1) s by simp
  have h': "health_check rt tgt' (tls a') (service a') (timeout a') = Returned NOT_SERVING"
    using assms(2) s' by simp
  have o: "open_channel rt tgt (tls a) = None" and o': "open_channel rt tgt' (tls a') = None"
    using assms(3) by simp_all
  note ch = check_health_returned[OF o h nm, of "verbose a"]
  note ch' = check_health_returned[OF o' h' nm', of "verbose a'"]
  have r: "CheckCall (service a) (timeout a) \<in> set (snd (main rt argv))
       \<and> fst (main rt argv) = SystemExit 0 \<and> exit_status (fst (main rt argv)) = 0"
    by (simp add: main_run_check[OF assms(4,5)] run_check_def ch)
  have r': "CheckCall (service a') (timeout a') \<in> set (snd (main rt argv'))
       \<and> fst (main rt argv') = SystemExit 1 \<and> exit_status (fst (main rt argv')) = 1"
    using ne by (simp add: main_run_check[OF assms(7,8)] run_check_def ch')
  from s s' r r' show ?thesis by simp
qed

lemma mock_parse_host_port:
  "parse_args (mock_runtime srv) [OptHost ''localhost'', OptPort ''50051''] =
     Inr ((default_namespace (mock_runtime srv))
            \<lparr>host := Some ''localhost'', port := Some 50051\<rparr>)"
  by (simp add: parse_args_def mock_runtime_def default_namespace_def)

lemma build_target_host_port:
  "build_target ((default_namespace rt)\<lparr>host := Some ''localhost'', port := Some 50051\<rparr>) =
     Inr ''localhost:50051''"
  by (simp add: build_target_def default_namespace_def str_optional_def str_int_def str_nat.simps)

lemma build_target_given_service:
  "build_target (a\<lparr>target := Some ''localhost:50051'', service := sv\<rparr>) = Inr ''localhost:50051''"
  by (simp add: build_target_def)

theorem omitted_service_is_whole_server_witness:
  "service_options [OptHost ''localhost'', OptPort ''50051''] = []
   \<and> last (service_options [OptTarget ''localhost:50051'', OptService ''X'']) = ''X''
   \<and> main (mock_runtime spec_server) [OptHost ''localhost'', OptPort ''50051''] =
       (SystemExit 0,
        [ChannelCreate ''localhost:50051'' False, CheckCall '''' ''5.0'', ChannelClose,
         Stdout (check_mark @ '' Service is healthy'')])
   \<and> main (mock_runtime spec_server) [OptTarget ''localhost:50051'', OptService ''X''] =
       (SystemExit 1,
        [ChannelCreate ''localhost:50051'' False, CheckCall ''X'' ''5.0'', ChannelClose,
         Stdout (cross_mark @ '' Service is not healthy'')])"
proof -
  let ?rt = "mock_runtime spec_server"
  let ?a = "(default_namespace ?rt)\<lparr>host := Some ''localhost'', port := Some 50051\<rparr>"
  let ?a' = "(default_namespace ?rt)\<lparr>target := Some ''localhost:50051'', service := ''X''\<rparr>"
  have srv: "\<forall>tgt u tm. health_check ?rt tgt u '''' tm = Returned SERVING"
    "\<forall>tgt u tm. health_check ?rt tgt u ''X'' tm = Returned NOT_SERVING"
    "open_channel ?rt ''localhost:50051'' (tls ?a) = None \<and>
     open_channel ?rt ''localhost:50051'' (tls ?a') = None"
    by (simp_all add: mock_fields valid_utf8_texts spec_server_def)
  have so: "service_options [OptHost ''localhost'', OptPort ''50051''] = []"
    "service_options [OptTarget ''localhost:50051'', OptService ''X''] \<noteq> []"
    "last (service_options [OptTarget ''localhost:50051'', OptService ''X'']) = ''X''"
    by simp_all
  note t = omitted_service_is_whole_server[OF srv mock_parse_host_port build_target_host_port
      so(1) mock_parse_target_service build_target_given_service so(2,3)]
  have ev: "snd (main ?rt [OptHost ''localhost'', OptPort ''50051'']) =
        [ChannelCreate ''localhost:50051'' False, CheckCall '''' ''5.0'', ChannelClose,
         Stdout (check_mark @ '' Service is healthy'')]"
    by (simp add: main_run_check[OF mock_parse_host_port build_target_host_port] run_check_def
        check_health_def mock_fields valid_utf8_texts spec_server_def default_namespace_def
        ServingStatus_Name_def status_defs)
  have ev': "snd (main ?rt [OptTarget ''localhost:50051'', OptService ''X'']) =
        [ChannelCreate ''localhost:50051'' False, CheckCall ''X'' ''5.0'', ChannelClose,
         Stdout (cross_mark @ '' Service is not healthy'')]"
    by (simp add: main_run_check[OF mock_parse_target_service build_target_given_service] run_check_def
        check_health_def mock_fields valid_utf8_texts spec_server_def default_namespace_def
        ServingStatus_Name_def status_defs)
  from t ev ev' so show ?thesis by (simp add: prod_eq_iff)
qed

subsection \<open>Errors and exit statuses\<close>

lemma main_build_target_error:
  "parse_args rt argv = Inr a \<Longrightarrow> build_target a = Inl e \<Longrightarrow>
   main rt argv = (SystemExit 2, [UsageError e])"
  by (simp add: main_def)

lemma main_network:
  "filter is_network (snd (main rt argv)) = [] \<or>
   (\<exists>t u. filter is_network (snd (main rt argv)) = [ChannelCreate t u, ChannelClose]) \<or>
   (\<exists>t u s tm. filter is_network (snd (main rt argv)) =
      [ChannelCreate t u, CheckCall s tm, ChannelClose])"
proof (cases "parse_args rt argv")
  case (Inl e)
  from main_parse_exit[OF Inl] show ?thesis by (cases e) simp_all
next
  case (Inr a)
  show ?thesis
  proof (cases "build_target a")
    case (Inl e)
    from main_build_target_error[OF Inr Inl] show ?thesis by simp
  next
    case (Inr tgt)
    from main_run_check[OF \<open>parse_args rt argv = Inr a\<close> Inr] show ?thesis
      by (simp add: run_check_network check_health_network split: rpc_outcome.splits)
  qed
qed

lemma main_check_calls: "check_calls (snd (main rt argv)) \<le> 1"
proof -
  have "check_calls (snd (main rt argv)) = check_calls (filter is_network (snd (main rt argv)))"
    by (simp only: check_calls_filter)
  with main_network[of rt argv] show ?thesis by auto
qed

text \<open>
  C4 as stated (every error kind, argument errors included, is mapped to exit code 1)
  does not hold: an argument error leaves through \<open>parser.error\<close>, whose exit status
  is 2. This is so for the conflict that the mutually exclusive group reports and for
  the \<open>--host\<close> without \<open>--port\<close> that \<open>main\<close> reports itself (line 192).
\<close>

theorem argument_error_exits_2_counterexample:
  "main (mock_runtime spec_server) [OptTarget ''localhost:50051'', OptHost ''localhost''] =
     (SystemExit 2, [UsageError (NotAllowedWith ''--host'' ''--target'')])
   \<and> exit_status (fst (main (mock_runtime spec_server)
        [OptTarget ''localhost:50051'', OptHost ''localhost''])) \<noteq> 1
   \<and> main (mock_runtime spec_server) [OptHost ''localhost''] =
     (SystemExit 2, [UsageError (ParserError ''--port is required when using --host'')])
   \<and> exit_status (fst (main (mock_runtime spec_server) [OptHost ''localhost''])) \<noteq> 1"
  by (simp add: main_def parse_args_def default_namespace_def build_target_def)

text \<open>
  C4, amended. Every error is reported to the user and ends the run: an argument error
  (from \<open>parse_args\<close> or from line 192) is reported as a usage error on stderr with
  exit status 2, before anything else happens; an \<open>RpcError\<close> of any status code is
  reported on stderr with its classified message and exit status 1; and no run makes
  the \<open>Check\<close> call more than once, so nothing is retried.
\<close>

theorem errors_are_terminal:
  "(parse_args rt argv = Inl (UsageExit e) \<longrightarrow> main rt argv = (SystemExit 2, [UsageError e]))
   \<and> (parse_args rt argv = Inr a \<and> build_target a = Inl e \<longrightarrow>
        main rt argv = (SystemExit 2, [UsageError e]))
   \<and> (parse_args rt argv = Inr a \<and> build_target a = Inr tgt \<and>
        open_channel rt tgt (tls a) = None \<and>
        health_check rt tgt (tls a) (service a) (timeout a) = RaisedRpc c d \<longrightarrow>
        fst (main rt argv) = SystemExit 1 \<and>
        Stderr (cross_mark @ '' Health check failed: '' @
                rpc_error_message rt tgt (service a) (timeout a) c d)
          \<in> set (snd (main rt argv)))
   \<and> check_calls (snd (main rt argv)) \<le> 1"
proof (intro conjI impI)
  assume "parse_args rt argv = Inl (UsageExit e)"
  from main_parse_exit[OF this] show "main rt argv = (SystemExit 2, [UsageError e])" by simp
next
  assume "parse_args rt argv = Inr a \<and> build_target a = Inl e"
  then show "main rt argv = (SystemExit 2, [UsageError e])"
    by (simp add: main_build_target_error)
next
  assume h: "parse_args rt argv = Inr a \<and> build_target a = Inr tgt \<and>
        open_channel rt tgt (tls a) = None \<and>
        health_check rt tgt (tls a) (service a) (timeout a) = RaisedRpc c d"
  then have m: "main rt argv = run_check rt tgt a"
    by (simp add: main_run_check)
  from h have ch: "check_health rt tgt (service a) (timeout a) (tls a) (verbose a) =
    (Inl (HealthCheckError (rpc_error_message rt tgt (service a) (timeout a) c d)),
     (if verbose a then verbose_banner rt tgt (service a) (timeout a) (tls a) else []) @
     [ChannelCreate tgt (tls a), CheckCall (service a) (timeout a)] @
     (if verbose a then [Stdout (cross_mark @ '' gRPC Error: '' @ status_code_name c),
                 Stdout (''   Details: '' @ str_optional d)] else []) @ [ChannelClose])"
    by (simp add: check_health_rpc_raised)
  show "fst (main rt argv) = SystemExit 1"
    by (simp add: m run_check_def ch)
  show "Stderr (cross_mark @ '' Health check failed: '' @
                rpc_error_message rt tgt (service a) (timeout a) c d)
          \<in> set (snd (main rt argv))"
    by (simp add: m run_check_def ch)
next
  show "check_calls (snd (main rt argv)) \<le> 1" by (rule main_check_calls)
qed

lemma mock_parse_host:
  "parse_args (mock_runtime srv) [OptHost ''localhost''] =
     Inr ((default_namespace (mock_runtime srv))\<lparr>host := Some ''localhost''\<rparr>)"
  by (simp add: parse_args_def)

lemma mock_parse_conflict:
  "parse_args (mock_runtime srv) [OptTarget ''localhost:50051'', OptHost ''localhost''] =
     Inl (UsageExit (NotAllowedWith ''--host'' ''--target''))"
  by (simp add: parse_args_def)

theorem errors_are_terminal_witness:
  "main (mock_runtime spec_server) [OptTarget ''localhost:50051'', OptHost ''localhost''] =
     (SystemExit 2, [UsageError (NotAllowedWith ''--host'' ''--target'')])
   \<and> main (mock_runtime spec_server) [OptHost ''localhost''] =
     (SystemExit 2, [UsageError (ParserError ''--port is required when using --host'')])
   \<and> health_check (mock_runtime (\<lambda>sv. RaisedRpc UNAVAILABLE None)) ''localhost:50051'' False
        '''' ''5.0'' = RaisedRpc UNAVAILABLE None
   \<and> fst (main (mock_runtime (\<lambda>sv. RaisedRpc UNAVAILABLE None)) [OptTarget ''localhost:50051''])
       = SystemExit 1
   \<and> Stderr (cross_mark @ '' Health check failed: Cannot connect to localhost:50051'')
       \<in> set (snd (main (mock_runtime (\<lambda>sv. RaisedRpc UNAVAILABLE None))
                  [OptTarget ''localhost:50051'']))
   \<and> check_calls (snd (main (mock_runtime (\<lambda>sv. RaisedRpc UNAVAILABLE None))
                  [OptTarget ''localhost:50051''])) \<le> 1"
proof -
  let ?un = "mock_runtime (\<lambda>sv. RaisedRpc UNAVAILABLE None)"
  have 1: "main (mock_runtime spec_server) [OptTarget ''localhost:50051'', OptHost ''localhost''] =
     (SystemExit 2, [UsageError (NotAllowedWith ''--host'' ''--target'')])"
    using errors_are_terminal[where rt = "mock_runtime spec_server"
        and argv = "[OptTarget ''localhost:50051'', OptHost ''localhost'']"
        and e = "NotAllowedWith ''--host'' ''--target''"]
    by (simp add: mock_parse_conflict)
  have 2: "main (mock_runtime spec_server) [OptHost ''localhost''] =
     (SystemExit 2, [UsageError (ParserError ''--port is required when using --host'')])"
    using errors_are_terminal[where rt = "mock_runtime spec_server"
        and argv = "[OptHost ''localhost'']"
        and a = "(default_namespace (mock_runtime spec_server))\<lparr>host := Some ''localhost''\<rparr>"
        and e = "ParserError ''--port is required when using --host''"]
    by (simp add: mock_parse_host build_target_def default_namespace_def)
  have h: "health_check ?un ''localhost:50051'' False '''' ''5.0'' = RaisedRpc UNAVAILABLE None"
    by (simp add: mock_fields valid_utf8_texts)
  have 3: "fst (main ?un [OptTarget ''localhost:50051'']) = SystemExit 1
     \<and> Stderr (cross_mark @ '' Health check failed: Cannot connect to localhost:50051'')
         \<in> set (snd (main ?un [OptTarget ''localhost:50051'']))
     \<and> check_calls (snd (main ?un [OptTarget ''localhost:50051''])) \<le> 1"
    using errors_are_terminal[where rt = ?un
        and argv = "[OptTarget ''localhost:50051'']"
        and a = "(default_namespace ?un)\<lparr>target := Some ''localhost:50051''\<rparr>"
        and tgt = "''localhost:50051''" and c = UNAVAILABLE and d = None]
    by (simp add: mock_parse_target build_target_def default_namespace_def mock_fields valid_utf8_texts
        rpc_error_message_def)
  from 1 2 h 3 show ?thesis by simp
qed

subsection \<open>A corner of the target address\<close>

text \<open>An empty \<open>--target\<close> counts as a member of the group, but is false at line 188, so
  the address is built from a host that was never given.\<close>

lemma empty_target_with_port:
  "main (mock_runtime spec_server) [OptTarget '''', OptPort ''50051''] =
     (SystemExit 0,
      [ChannelCreate ''None:50051'' False, CheckCall '''' ''5.0'', ChannelClose,
       Stdout (check_mark @ '' Service is healthy'')])"
proof -
  have p: "parse_args (mock_runtime spec_server) [OptTarget '''', OptPort ''50051''] =
      Inr ((default_namespace (mock_runtime spec_server))\<lparr>target := Some '''', port := Some 50051\<rparr>)"
    by (simp add: parse_args_def mock_runtime_def default_namespace_def)
  have b: "build_target ((default_namespace (mock_runtime spec_server))
      \<lparr>target := Some '''', port := Some 50051\<rparr>) = Inr ''None:50051''"
    by (simp add: build_target_def default_namespace_def str_optional_def str_int_def
        str_nat.simps)
  show ?thesis
    by (simp add: main_run_check[OF p b] run_check_def check_health_def mock_fields
        valid_utf8_texts default_namespace_def spec_server_def ServingStatus_Name_def
        status_defs)
qed

end
